theory Spec2Isabelle
  imports Main "HOL-Library.Monad_Syntax" "HOL-Library.AList"
begin

section \<open>Data model of packages tracing and trace2go\<close>

text \<open>
  The embedding follows \<^verbatim>\<open>tracing/tracing.go\<close>, \<^verbatim>\<open>tracing/trace2go/root.go\<close> and
  \<^verbatim>\<open>tracing/gologadapter/gologadapter.go\<close>. Package-level variables become fields of
  one \<open>state\<close> record that every operation takes and returns. A Go panic (a method
  call through a nil interface, a call of a nil function value) is the result \<open>None\<close>.
  Mutexes are not modelled: every operation runs alone.
\<close>

subsection \<open>Trace levels\<close>

text \<open>\<^verbatim>\<open>type TraceLevel uint8\<close> with the three constants declared by \<^verbatim>\<open>iota\<close>.\<close>

datatype TraceLevel = LevelError | LevelInfo | LevelDebug

fun level_num :: "TraceLevel \<Rightarrow> nat" where
  "level_num LevelError = 0"
| "level_num LevelInfo = 1"
| "level_num LevelDebug = 2"

text \<open>
  \<^verbatim>\<open>strings.ToLower\<close>, on ASCII letters; bytes outside \<open>A..Z\<close> are kept.
\<close>

definition toLower_char :: "char \<Rightarrow> char" where
  "toLower_char c =
     (let n = (of_char c :: nat) in if 65 \<le> n \<and> n \<le> 90 then char_of (n + 32) else c)"

definition ToLower :: "string \<Rightarrow> string" where
  "ToLower sl = map toLower_char sl"

definition TraceLevelFromString :: "string \<Rightarrow> TraceLevel" where
  "TraceLevelFromString sl =
     (let l = ToLower sl in
      if l = ''debug'' then LevelDebug
      else if l = ''info'' then LevelInfo
      else if l = ''error'' then LevelError
      else LevelInfo)"

subsection \<open>Interface values, objects and the store\<close>

type_synonym addr = nat

text \<open>
  A value of interface type \<^verbatim>\<open>tracing.Trace\<close>: nil, the empty struct \<^verbatim>\<open>noOpTrace{}\<close>
  (all its values are equal), or a pointer together with its dynamic type.
\<close>

datatype Trace =
    TraceNil
  | noOpTrace
  | BareBonesPtr addr
  | TracerPtr addr
  | rootTracerPtr addr

text \<open>An \<^verbatim>\<open>io.Writer\<close>; the nil writer is \<open>None\<close> of \<open>Writer option\<close>.\<close>

datatype Writer = Stderr | Stdout | Buffer nat

text \<open>Operands of the variadic \<^verbatim>\<open>args ...interface{}\<close>.\<close>

datatype Value = StringValue string | IntValue int

text \<open>
  What a writer has received. Rendering a format string belongs to Go's \<^verbatim>\<open>fmt\<close> and
  \<^verbatim>\<open>log\<close> packages, so a write is recorded as the request that was made:
  \<open>Fprintf msg args\<close> for \<^verbatim>\<open>fmt.Fprintf(w, msg, args...)\<close>, and \<open>LogPrintf l msg args\<close>
  for \<^verbatim>\<open>log.Printf(msg, args...)\<close> under the prefix of level \<open>l\<close>.
\<close>

datatype Written =
    Fprintf string "Value list"
  | LogPrintf TraceLevel string "Value list"

text \<open>
  The bytes of a request, where they do not depend on \<^verbatim>\<open>fmt\<close>'s verbs: a format
  without \<open>%\<close> and without operands is printed as it is.
\<close>

fun render :: "Written \<Rightarrow> string option" where
  "render (Fprintf msg args) =
     (if args = [] \<and> CHR ''%'' \<notin> set msg then Some msg else None)"
| "render (LogPrintf l msg args) = None"

text \<open>
  \<^verbatim>\<open>type Adapter func() Trace\<close>. The factories of these packages: the \<^verbatim>\<open>"nop"\<close> entry
  of \<^verbatim>\<open>knownTraceAdapters\<close>, the closure of \<^verbatim>\<open>rootTracer.init\<close> that builds a
  \<^verbatim>\<open>_BareBonesTrace\<close>, and \<^verbatim>\<open>gologadapter.New\<close>. A nil function value is \<open>None\<close> of
  \<open>Adapter option\<close>.
\<close>

datatype Adapter = nop_Adapter | bare_Adapter | gologadapter_New

text \<open>
  \<^verbatim>\<open>schuko.Configuration\<close> is an interface; the code calls only \<^verbatim>\<open>GetString\<close>, so a
  configuration is that function. \<open>Conf\<close> is \<^verbatim>\<open>testconfig.Conf\<close> with string values.
\<close>

type_synonym Configuration = "string \<Rightarrow> string"

definition Conf :: "(string \<times> string) list \<Rightarrow> Configuration" where
  "Conf c key = (case map_of c key of None \<Rightarrow> [] | Some v \<Rightarrow> v)"

text \<open>\<^verbatim>\<open>type rootTracer struct\<close>; \<open>embedded\<close> is the embedded \<^verbatim>\<open>tracing.Trace\<close>.\<close>

record rootTracer =
  embedded :: Trace
  config :: Configuration
  prefixKey :: string
  optAdapterKey :: string
  adapter :: "Adapter option"
  replaceChildren :: bool

text \<open>
  Heap objects: \<^verbatim>\<open>_BareBonesTrace{out}\<close>, \<^verbatim>\<open>gologadapter.Tracer{log, level}\<close> (of the
  logger, the writer it prints to), and \<^verbatim>\<open>rootTracer\<close>.
\<close>

datatype obj =
    BareBonesTrace "Writer option"
  | Tracer TraceLevel "Writer option"
  | RootTracer rootTracer

text \<open>The one \<^verbatim>\<open>TraceSelector\<close> these packages can install.\<close>

datatype TraceSelector = trace2goSelector

text \<open>
  The package variables: \<^verbatim>\<open>root\<close>, \<^verbatim>\<open>initRoot\<close> (whether the \<^verbatim>\<open>sync.Once\<close> has
  fired), \<^verbatim>\<open>selectableTracers\<close>, \<^verbatim>\<open>tracing.selector\<close>, \<^verbatim>\<open>tracing.knownTraceAdapters\<close>;
  then the store and what each writer has received. \<^verbatim>\<open>selectableTracers\<close> is an
  association list: \<^verbatim>\<open>range\<close> visits the keys in list order (Go leaves the order
  open). In \<open>knownTraceAdapters\<close>, \<open>None\<close> is a missing key and \<open>Some None\<close> a key
  bound to a nil \<^verbatim>\<open>Adapter\<close>.
\<close>

record state =
  root :: Trace
  initRoot :: bool
  selectableTracers :: "(string \<times> Trace) list"
  selector :: "TraceSelector option"
  knownTraceAdapters :: "string \<rightharpoonup> Adapter option"
  heap :: "addr \<rightharpoonup> obj"
  nextAddr :: addr
  written :: "Writer \<Rightarrow> Written list"

definition init_state :: state where
  "init_state =
     \<lparr> root = TraceNil, initRoot = False, selectableTracers = [], selector = None,
       knownTraceAdapters = [''nop'' \<mapsto> Some nop_Adapter],
       heap = Map.empty, nextAddr = 0, written = (\<lambda>w. []) \<rparr>"

text \<open>Allocation of a fresh object (\<^verbatim>\<open>&T{...}\<close>).\<close>

definition new :: "obj \<Rightarrow> state \<Rightarrow> addr \<times> state" where
  "new ob s =
     (nextAddr s, s\<lparr> heap := (heap s)(nextAddr s \<mapsto> ob), nextAddr := Suc (nextAddr s) \<rparr>)"

definition fwrite :: "Writer \<Rightarrow> Written \<Rightarrow> state \<Rightarrow> state" where
  "fwrite w x s = s\<lparr> written := (written s)(w := written s w @ [x]) \<rparr>"

subsection \<open>Methods of \<^verbatim>\<open>_BareBonesTrace\<close> (trace2go/root.go)\<close>

definition BareBones_Debugf :: "addr \<Rightarrow> string \<Rightarrow> Value list \<Rightarrow> state \<Rightarrow> state option" where
  "BareBones_Debugf a msg args s = Some s"

definition BareBones_Infof :: "addr \<Rightarrow> string \<Rightarrow> Value list \<Rightarrow> state \<Rightarrow> state option" where
  "BareBones_Infof a msg args s = Some s"

definition BareBones_Errorf :: "addr \<Rightarrow> string \<Rightarrow> Value list \<Rightarrow> state \<Rightarrow> state option" where
  "BareBones_Errorf a msg args s =
     (case heap s a of
        Some (BareBonesTrace out) \<Rightarrow>
          (case out of
             None \<Rightarrow> Some (fwrite Stderr (Fprintf (''[ERROR] '' @ msg @ [CHR ''\<newline>'']) args) s)
           | Some w \<Rightarrow> Some (fwrite w (Fprintf msg args) s))
      | _ \<Rightarrow> None)"

definition BareBones_P :: "addr \<Rightarrow> string \<Rightarrow> Value \<Rightarrow> state \<Rightarrow> (Trace \<times> state) option" where
  "BareBones_P a k v s = Some (BareBonesPtr a, s)"

definition BareBones_SetTraceLevel :: "addr \<Rightarrow> TraceLevel \<Rightarrow> state \<Rightarrow> state option" where
  "BareBones_SetTraceLevel a l s = Some s"

definition BareBones_GetTraceLevel :: "addr \<Rightarrow> state \<Rightarrow> TraceLevel option" where
  "BareBones_GetTraceLevel a s = Some LevelError"

definition BareBones_SetOutput :: "addr \<Rightarrow> Writer option \<Rightarrow> state \<Rightarrow> state option" where
  "BareBones_SetOutput a w s =
     (case heap s a of
        Some (BareBonesTrace out) \<Rightarrow> Some (s\<lparr> heap := (heap s)(a \<mapsto> BareBonesTrace w) \<rparr>)
      | _ \<Rightarrow> None)"

subsection \<open>Methods of \<^verbatim>\<open>gologadapter.Tracer\<close>\<close>

text \<open>
  \<^verbatim>\<open>output\<close> sets the logger's prefix to that of level \<open>l\<close> and prints; a logger whose
  writer is nil panics when it prints.
\<close>

definition Tracer_output ::
  "addr \<Rightarrow> TraceLevel \<Rightarrow> string \<Rightarrow> string \<Rightarrow> Value list \<Rightarrow> state \<Rightarrow> state option" where
  "Tracer_output a l p msg args s =
     (case heap s a of
        Some (Tracer level out) \<Rightarrow>
          (case out of
             None \<Rightarrow> None
           | Some w \<Rightarrow> Some (fwrite w (LogPrintf l (p @ msg) args) s))
      | _ \<Rightarrow> None)"

definition Tracer_Debugf :: "addr \<Rightarrow> string \<Rightarrow> Value list \<Rightarrow> state \<Rightarrow> state option" where
  "Tracer_Debugf a msg args s =
     (case heap s a of
        Some (Tracer level out) \<Rightarrow>
          if level_num level < level_num LevelDebug then Some s
          else Tracer_output a LevelDebug [] msg args s
      | _ \<Rightarrow> None)"

definition Tracer_Infof :: "addr \<Rightarrow> string \<Rightarrow> Value list \<Rightarrow> state \<Rightarrow> state option" where
  "Tracer_Infof a msg args s =
     (case heap s a of
        Some (Tracer level out) \<Rightarrow>
          if level_num level < level_num LevelInfo then Some s
          else Tracer_output a LevelInfo [] msg args s
      | _ \<Rightarrow> None)"

definition Tracer_Errorf :: "addr \<Rightarrow> string \<Rightarrow> Value list \<Rightarrow> state \<Rightarrow> state option" where
  "Tracer_Errorf a msg args s =
     (case heap s a of
        Some (Tracer level out) \<Rightarrow>
          if level_num level < level_num LevelError then Some s
          else Tracer_output a LevelError [] msg args s
      | _ \<Rightarrow> None)"

definition Tracer_SetTraceLevel :: "addr \<Rightarrow> TraceLevel \<Rightarrow> state \<Rightarrow> state option" where
  "Tracer_SetTraceLevel a l s =
     (case heap s a of
        Some (Tracer level out) \<Rightarrow> Some (s\<lparr> heap := (heap s)(a \<mapsto> Tracer l out) \<rparr>)
      | _ \<Rightarrow> None)"

definition Tracer_GetTraceLevel :: "addr \<Rightarrow> state \<Rightarrow> TraceLevel option" where
  "Tracer_GetTraceLevel a s =
     (case heap s a of Some (Tracer level out) \<Rightarrow> Some level | _ \<Rightarrow> None)"

definition Tracer_SetOutput :: "addr \<Rightarrow> Writer option \<Rightarrow> state \<Rightarrow> state option" where
  "Tracer_SetOutput a w s =
     (case heap s a of
        Some (Tracer level out) \<Rightarrow> Some (s\<lparr> heap := (heap s)(a \<mapsto> Tracer level w) \<rparr>)
      | _ \<Rightarrow> None)"

subsection \<open>Calls through the interface \<^verbatim>\<open>tracing.Trace\<close>\<close>

text \<open>
  A \<^verbatim>\<open>*rootTracer\<close> has the methods of its embedded \<^verbatim>\<open>Trace\<close>: \<open>receiver\<close> is the
  value the call is forwarded to. An adapter never returns a \<^verbatim>\<open>*rootTracer\<close>, so none
  is ever embedded in another; the call on \<open>TraceNil\<close> panics, and the methods of
  \<^verbatim>\<open>noOpTrace\<close> do nothing.
\<close>

definition receiver :: "Trace \<Rightarrow> state \<Rightarrow> Trace option" where
  "receiver t s =
     (case t of
        rootTracerPtr a \<Rightarrow>
          (case heap s a of Some (RootTracer r) \<Rightarrow> Some (embedded r) | _ \<Rightarrow> None)
      | _ \<Rightarrow> Some t)"

fun Debugf_on :: "Trace \<Rightarrow> string \<Rightarrow> Value list \<Rightarrow> state \<Rightarrow> state option" where
  "Debugf_on TraceNil msg args s = None"
| "Debugf_on noOpTrace msg args s = Some s"
| "Debugf_on (BareBonesPtr a) msg args s = BareBones_Debugf a msg args s"
| "Debugf_on (TracerPtr a) msg args s = Tracer_Debugf a msg args s"
| "Debugf_on (rootTracerPtr a) msg args s = None"

fun Infof_on :: "Trace \<Rightarrow> string \<Rightarrow> Value list \<Rightarrow> state \<Rightarrow> state option" where
  "Infof_on TraceNil msg args s = None"
| "Infof_on noOpTrace msg args s = Some s"
| "Infof_on (BareBonesPtr a) msg args s = BareBones_Infof a msg args s"
| "Infof_on (TracerPtr a) msg args s = Tracer_Infof a msg args s"
| "Infof_on (rootTracerPtr a) msg args s = None"

fun Errorf_on :: "Trace \<Rightarrow> string \<Rightarrow> Value list \<Rightarrow> state \<Rightarrow> state option" where
  "Errorf_on TraceNil msg args s = None"
| "Errorf_on noOpTrace msg args s = Some s"
| "Errorf_on (BareBonesPtr a) msg args s = BareBones_Errorf a msg args s"
| "Errorf_on (TracerPtr a) msg args s = Tracer_Errorf a msg args s"
| "Errorf_on (rootTracerPtr a) msg args s = None"

fun SetTraceLevel_on :: "Trace \<Rightarrow> TraceLevel \<Rightarrow> state \<Rightarrow> state option" where
  "SetTraceLevel_on TraceNil l s = None"
| "SetTraceLevel_on noOpTrace l s = Some s"
| "SetTraceLevel_on (BareBonesPtr a) l s = BareBones_SetTraceLevel a l s"
| "SetTraceLevel_on (TracerPtr a) l s = Tracer_SetTraceLevel a l s"
| "SetTraceLevel_on (rootTracerPtr a) l s = None"

fun GetTraceLevel_on :: "Trace \<Rightarrow> state \<Rightarrow> TraceLevel option" where
  "GetTraceLevel_on TraceNil s = None"
| "GetTraceLevel_on noOpTrace s = Some LevelError"
| "GetTraceLevel_on (BareBonesPtr a) s = BareBones_GetTraceLevel a s"
| "GetTraceLevel_on (TracerPtr a) s = Tracer_GetTraceLevel a s"
| "GetTraceLevel_on (rootTracerPtr a) s = None"

fun SetOutput_on :: "Trace \<Rightarrow> Writer option \<Rightarrow> state \<Rightarrow> state option" where
  "SetOutput_on TraceNil w s = None"
| "SetOutput_on noOpTrace w s = Some s"
| "SetOutput_on (BareBonesPtr a) w s = BareBones_SetOutput a w s"
| "SetOutput_on (TracerPtr a) w s = Tracer_SetOutput a w s"
| "SetOutput_on (rootTracerPtr a) w s = None"

definition Debugf :: "Trace \<Rightarrow> string \<Rightarrow> Value list \<Rightarrow> state \<Rightarrow> state option" where
  "Debugf t msg args s = do { t' \<leftarrow> receiver t s; Debugf_on t' msg args s }"

definition Infof :: "Trace \<Rightarrow> string \<Rightarrow> Value list \<Rightarrow> state \<Rightarrow> state option" where
  "Infof t msg args s = do { t' \<leftarrow> receiver t s; Infof_on t' msg args s }"

definition Errorf :: "Trace \<Rightarrow> string \<Rightarrow> Value list \<Rightarrow> state \<Rightarrow> state option" where
  "Errorf t msg args s = do { t' \<leftarrow> receiver t s; Errorf_on t' msg args s }"

definition SetTraceLevel :: "Trace \<Rightarrow> TraceLevel \<Rightarrow> state \<Rightarrow> state option" where
  "SetTraceLevel t l s = do { t' \<leftarrow> receiver t s; SetTraceLevel_on t' l s }"

definition GetTraceLevel :: "Trace \<Rightarrow> state \<Rightarrow> TraceLevel option" where
  "GetTraceLevel t s = do { t' \<leftarrow> receiver t s; GetTraceLevel_on t' s }"

definition SetOutput :: "Trace \<Rightarrow> Writer option \<Rightarrow> state \<Rightarrow> state option" where
  "SetOutput t w s = do { t' \<leftarrow> receiver t s; SetOutput_on t' w s }"

text \<open>Calling an \<^verbatim>\<open>Adapter\<close>; each pointer it returns is to a new object.\<close>

fun call_Adapter :: "Adapter \<Rightarrow> state \<Rightarrow> Trace \<times> state" where
  "call_Adapter nop_Adapter s = (noOpTrace, s)"
| "call_Adapter bare_Adapter s =
     (let (a, s') = new (BareBonesTrace None) s in (BareBonesPtr a, s'))"
| "call_Adapter gologadapter_New s =
     (let (a, s') = new (Tracer LevelError (Some Stderr)) s in (TracerPtr a, s'))"

section \<open>The operations\<close>

subsection \<open>Root tracer and named tracers (trace2go/root.go)\<close>

text \<open>
  \<^verbatim>\<open>Root\<close>: when \<^verbatim>\<open>root\<close> is nil, \<^verbatim>\<open>initRoot.Do\<close> runs its function only if the
  \<^verbatim>\<open>sync.Once\<close> has not fired before.
\<close>

definition Root :: "state \<Rightarrow> Trace \<times> state" where
  "Root s =
     (if root s = TraceNil then
        (if initRoot s then (root s, s)
         else (let (a, s1) = new (BareBonesTrace None) s;
                   s2 = s1\<lparr> root := BareBonesPtr a, initRoot := True \<rparr>
               in (root s2, s2)))
      else (root s, s))"

definition getValue :: "Configuration \<Rightarrow> string \<Rightarrow> string \<Rightarrow> string" where
  "getValue conf prefix key =
     (if conf (prefix @ key) \<noteq> [] then conf (prefix @ key)
      else if conf (prefix @ ''.'' @ key) \<noteq> [] then conf (prefix @ ''.'' @ key)
      else if conf (prefix @ ''/'' @ key) \<noteq> [] then conf (prefix @ ''/'' @ key)
      else [])"

definition GetTracer :: "string \<Rightarrow> state \<Rightarrow> Trace" where
  "GetTracer name s =
     (case map_of (selectableTracers s) name of Some child \<Rightarrow> child | None \<Rightarrow> TraceNil)"

text \<open>The type assertion \<^verbatim>\<open>t.(*rootTracer)\<close> and the call of a function value.\<close>

definition as_rootTracer :: "Trace \<Rightarrow> state \<Rightarrow> rootTracer option" where
  "as_rootTracer t s =
     (case t of
        rootTracerPtr a \<Rightarrow> (case heap s a of Some (RootTracer r) \<Rightarrow> Some r | _ \<Rightarrow> None)
      | _ \<Rightarrow> None)"

definition call :: "Adapter option \<Rightarrow> state \<Rightarrow> (Trace \<times> state) option" where
  "call f s = (case f of None \<Rightarrow> None | Some ad \<Rightarrow> Some (call_Adapter ad s))"

text \<open>\<^verbatim>\<open>NewTracer\<close> returns the pair (new tracer, tracer that held the slot).\<close>

definition NewTracer :: "string \<Rightarrow> bool \<Rightarrow> state \<Rightarrow> ((Trace \<times> Trace) \<times> state) option" where
  "NewTracer name replace s =
     (let (t, s1) = Root s in
      case t of
        rootTracerPtr a \<Rightarrow> do {
          r \<leftarrow> as_rootTracer t s1;
          (trace, s2) \<leftarrow> call (adapter r) s1;
          let level = getValue (config r) (prefixKey r) name;
          s3 \<leftarrow> SetTraceLevel trace (TraceLevelFromString level) s2;
          (case map_of (selectableTracers s3) name of
             Some prev \<Rightarrow>
               if \<not> replace then Some ((trace, prev), s3)
               else Some ((trace, prev),
                          s3\<lparr> selectableTracers := AList.update name trace (selectableTracers s3) \<rparr>)
           | None \<Rightarrow>
               Some ((trace, TraceNil),
                     s3\<lparr> selectableTracers := AList.update name trace (selectableTracers s3) \<rparr>))
        }
      | _ \<Rightarrow> (let (t', s2) = Root s1 in Some ((t', TraceNil), s2)))"

definition GetOrCreateTracer :: "string \<Rightarrow> state \<Rightarrow> (Trace \<times> state) option" where
  "GetOrCreateTracer name s =
     (let t = GetTracer name s in
      if t = TraceNil then do { ((t', prev), s') \<leftarrow> NewTracer name False s; Some (t', s') }
      else Some (t, s))"

text \<open>\<^verbatim>\<open>setTracer\<close> returns the tracer that held the slot (nil when there was none).\<close>

definition setTracer :: "string \<Rightarrow> Trace \<Rightarrow> state \<Rightarrow> (Trace \<times> state) option" where
  "setTracer name trace s =
     (let s1 = s\<lparr> selectableTracers := AList.update name trace (selectableTracers s) \<rparr> in
      case map_of (selectableTracers s) name of
        None \<Rightarrow> Some (TraceNil, s1)
      | Some prev \<Rightarrow> do {
          l \<leftarrow> GetTraceLevel prev s1;
          s2 \<leftarrow> SetTraceLevel trace l s1;
          Some (prev, s2)
        })"

subsection \<open>The facade (tracing/tracing.go)\<close>

definition SetTraceSelector :: "TraceSelector option \<Rightarrow> state \<Rightarrow> state" where
  "SetTraceSelector sel s = s\<lparr> selector := sel \<rparr>"

text \<open>
  \<^verbatim>\<open>Select\<close>: the installed selector is trace2go's, which is \<^verbatim>\<open>GetOrCreateTracer\<close>;
  with none installed, \<^verbatim>\<open>selectnoOpTracer\<close> answers.
\<close>

definition Select :: "string \<Rightarrow> state \<Rightarrow> (Trace \<times> state) option" where
  "Select key s =
     (case selector s of
        Some trace2goSelector \<Rightarrow> GetOrCreateTracer key s
      | None \<Rightarrow> Some (noOpTrace, s))"

definition tracing_Debugf :: "string \<Rightarrow> Value list \<Rightarrow> state \<Rightarrow> state option" where
  "tracing_Debugf msg args s = do { (t, s1) \<leftarrow> Select ''root'' s; Debugf t msg args s1 }"

definition tracing_Infof :: "string \<Rightarrow> Value list \<Rightarrow> state \<Rightarrow> state option" where
  "tracing_Infof msg args s = do { (t, s1) \<leftarrow> Select ''root'' s; Infof t msg args s1 }"

definition tracing_Errorf :: "string \<Rightarrow> Value list \<Rightarrow> state \<Rightarrow> state option" where
  "tracing_Errorf msg args s = do { (t, s1) \<leftarrow> Select ''root'' s; Errorf t msg args s1 }"

definition RegisterTraceAdapter ::
  "string \<Rightarrow> Adapter option \<Rightarrow> bool \<Rightarrow> state \<Rightarrow> state option" where
  "RegisterTraceAdapter key ad replace s = do {
     s1 \<leftarrow> tracing_Infof (''registering tracing type %q'' @ [CHR ''\<newline>'']) [StringValue key] s;
     let current = knownTraceAdapters s1 key;
     if current = None \<or> current = Some None \<or> replace
     then Some (s1\<lparr> knownTraceAdapters := (knownTraceAdapters s1)(key \<mapsto> ad) \<rparr>)
     else Some s1
   }"

text \<open>
  \<^verbatim>\<open>GetAdapterFromConfiguration\<close>: the body reads \<^verbatim>\<open>"tracing.adapter"\<close> and then
  \<^verbatim>\<open>"tracing"\<close>; it has no occurrence of its parameter \<^verbatim>\<open>optKey\<close>. A missing map key
  reads as the nil \<^verbatim>\<open>Adapter\<close>.
\<close>

definition GetAdapterFromConfiguration ::
  "Configuration \<Rightarrow> string \<Rightarrow> state \<Rightarrow> (Adapter option \<times> state) option" where
  "GetAdapterFromConfiguration conf optKey s =
     (let adapterPackage = conf ''tracing.adapter'';
          adapterPackage = (if adapterPackage = [] then conf ''tracing'' else adapterPackage)
      in case knownTraceAdapters s adapterPackage of
           Some (Some ad) \<Rightarrow> Some (Some ad, s)
         | _ \<Rightarrow> do {
             s1 \<leftarrow> tracing_Debugf (''no adapter found for tracing type %q'' @ [CHR ''\<newline>''])
                     [StringValue adapterPackage] s;
             Some (case knownTraceAdapters s1 ''bare'' of None \<Rightarrow> None | Some ad \<Rightarrow> ad, s1)
           })"

subsection \<open>Configuring and tearing down the root (trace2go/root.go)\<close>

datatype error = errorString string

text \<open>
  \<^verbatim>\<open>type _RootOption func(*rootTracer) error\<close>: an option updates the tracer under
  construction and returns an error or nil.
\<close>

type_synonym RootOption = "rootTracer \<Rightarrow> rootTracer \<times> error option"

definition ReplaceTracers :: "bool \<Rightarrow> RootOption" where
  "ReplaceTracers replace = (\<lambda>r. (r\<lparr> replaceChildren := replace \<rparr>, None))"

definition AdapterKey :: "string \<Rightarrow> RootOption" where
  "AdapterKey key = (\<lambda>r. (r\<lparr> optAdapterKey := key \<rparr>, None))"

definition newRootTracer :: "Configuration \<Rightarrow> string \<Rightarrow> rootTracer" where
  "newRootTracer conf prefix =
     \<lparr> embedded = TraceNil, config = conf, prefixKey = prefix, optAdapterKey = [],
       adapter = None, replaceChildren = False \<rparr>"

text \<open>The loop over \<^verbatim>\<open>opts\<close>: the first error ends \<^verbatim>\<open>ConfigureRoot\<close>.\<close>

fun apply_opts :: "RootOption list \<Rightarrow> rootTracer \<Rightarrow> error + rootTracer" where
  "apply_opts [] r = Inr r"
| "apply_opts (opt # opts) r =
     (case opt r of
        (r', Some err) \<Rightarrow> Inl err
      | (r', None) \<Rightarrow> apply_opts opts r')"

definition init :: "rootTracer \<Rightarrow> state \<Rightarrow> (rootTracer \<times> state) option" where
  "init t s = do {
     (ad, s1) \<leftarrow> GetAdapterFromConfiguration (config t) (optAdapterKey t) s;
     let ad = (case ad of None \<Rightarrow> bare_Adapter | Some f \<Rightarrow> f);
     let (tr, s2) = call_Adapter ad s1;
     let t1 = t\<lparr> adapter := Some ad, embedded := tr \<rparr>;
     let l = getValue (config t1) (prefixKey t1) ''root'';
     if l \<noteq> [] then do {
       s3 \<leftarrow> SetTraceLevel_on (embedded t1) (TraceLevelFromString l) s2;
       Some (t1, s3)
     } else Some (t1, s2)
   }"

text \<open>
  The loop \<^verbatim>\<open>for k := range selectableTracers\<close> of \<^verbatim>\<open>ConfigureRoot\<close>, over the keys
  \<open>ks\<close>; \<open>r\<close> is the new root tracer.
\<close>

fun replace_tracers :: "rootTracer \<Rightarrow> string list \<Rightarrow> state \<Rightarrow> state option" where
  "replace_tracers r [] s = Some s"
| "replace_tracers r (k # ks) s =
     (if k = ''root'' then replace_tracers r ks s
      else do {
        s1 \<leftarrow> Errorf_on (embedded r) (''replacing tracer '' @ [CHR 0x22] @ ''%s'' @ [CHR 0x22]) [StringValue k] s;
        (ch, s2) \<leftarrow> call (adapter r) s1;
        (prevCh, s3) \<leftarrow> setTracer k ch s2;
        s4 \<leftarrow> Infof prevCh ''replacing this tracer'' [] s3;
        s5 \<leftarrow> Infof ch ''welcome to the new tracer'' [] s4;
        replace_tracers r ks s5
      })"

definition is_BareBones :: "Trace \<Rightarrow> bool" where
  "is_BareBones t = (case t of BareBonesPtr a \<Rightarrow> True | _ \<Rightarrow> False)"

text \<open>
  \<^verbatim>\<open>ConfigureRoot\<close> returns its error result. The tracer \<open>r\<close> under construction is
  local until \<^verbatim>\<open>root = r\<close>; it enters the store there.
\<close>

definition ConfigureRoot ::
  "Configuration \<Rightarrow> string \<Rightarrow> RootOption list \<Rightarrow> state \<Rightarrow> (error option \<times> state) option" where
  "ConfigureRoot conf prefix opts s =
     (case apply_opts opts (newRootTracer conf prefix) of
        Inl err \<Rightarrow> Some (Some err, s)
      | Inr r0 \<Rightarrow> do {
          (r, s1) \<leftarrow> init r0 s;
          if root s1 = TraceNil \<or> is_BareBones (root s1) then
            (let (a, s2) = new (RootTracer r) s1 in Some (None, s2\<lparr> root := rootTracerPtr a \<rparr>))
          else do {
            s2 \<leftarrow> Infof (root s1) ''replacing root tracer'' [] s1;
            let (a, s3) = new (RootTracer r) s2;
            let s4 = s3\<lparr> root := rootTracerPtr a \<rparr>;
            s5 \<leftarrow> Infof (root s4) ''welcome to the new root tracer'' [] s4;
            if replaceChildren r then do {
              s6 \<leftarrow> replace_tracers r (map fst (selectableTracers s5)) s5;
              Some (None, s6)
            } else Some (None, s5)
          }
        })"

text \<open>\<^verbatim>\<open>Teardown\<close> prints a line to standard output and resets three variables.\<close>

definition Teardown :: "state \<Rightarrow> state" where
  "Teardown s =
     (let s1 = fwrite Stdout (Fprintf (''Tearing down trace2go tracing'' @ [CHR ''\<newline>'']) []) s;
          s2 = s1\<lparr> selectableTracers := [] \<rparr>;
          s3 = s2\<lparr> root := TraceNil \<rparr>
      in SetTraceSelector None s3)"

section \<open>Unfolding the operations\<close>

lemmas method_defs =
  BareBones_Debugf_def BareBones_Infof_def BareBones_Errorf_def BareBones_P_def
  BareBones_SetTraceLevel_def BareBones_GetTraceLevel_def BareBones_SetOutput_def
  Tracer_output_def Tracer_Debugf_def Tracer_Infof_def Tracer_Errorf_def
  Tracer_SetTraceLevel_def Tracer_GetTraceLevel_def Tracer_SetOutput_def
  receiver_def Debugf_def Infof_def Errorf_def SetTraceLevel_def GetTraceLevel_def
  SetOutput_def

lemmas op_defs =
  Root_def getValue_def GetTracer_def as_rootTracer_def call_def NewTracer_def
  GetOrCreateTracer_def setTracer_def SetTraceSelector_def Select_def
  tracing_Debugf_def tracing_Infof_def tracing_Errorf_def RegisterTraceAdapter_def
  GetAdapterFromConfiguration_def ReplaceTracers_def AdapterKey_def newRootTracer_def
  init_def is_BareBones_def ConfigureRoot_def Teardown_def
  new_def fwrite_def init_state_def Conf_def
  TraceLevelFromString_def ToLower_def toLower_char_def

section \<open>Root after Teardown\<close>

text \<open>
  \<^verbatim>\<open>Teardown\<close> sets \<^verbatim>\<open>root\<close> to nil and leaves the \<^verbatim>\<open>sync.Once\<close> as it is. What the
  next \<^verbatim>\<open>Root()\<close> returns depends on whether the once has fired.
\<close>

lemma Root_after_Teardown_once_fired:
  "initRoot s \<Longrightarrow> Root (Teardown s) = (TraceNil, Teardown s)"
  by (simp add: Root_def Teardown_def SetTraceSelector_def fwrite_def Let_def)

lemma Root_after_Teardown_once_unfired:
  "\<not> initRoot s \<Longrightarrow>
     fst (Root (Teardown s)) = BareBonesPtr (nextAddr s) \<and>
     heap (snd (Root (Teardown s))) (nextAddr s) = Some (BareBonesTrace None)"
  by (simp add: Root_def Teardown_def SetTraceSelector_def fwrite_def new_def Let_def)

text \<open>
  Claim C1. After \<^verbatim>\<open>Teardown()\<close>, the next \<^verbatim>\<open>Root()\<close> should return a bare-bones
  tracer, also when the root existed because \<^verbatim>\<open>Root()\<close> had been called before. The
  code at that history: the first \<^verbatim>\<open>Root()\<close> creates the bare-bones tracer at address
  0 and fires the once; after \<^verbatim>\<open>Teardown()\<close>, \<^verbatim>\<open>Root()\<close> returns nil.
\<close>

theorem Root_Teardown_Root_returns_nil:
  "fst (Root init_state) = BareBonesPtr 0 \<and>
   fst (Root (Teardown (snd (Root init_state)))) = TraceNil"
  by (simp add: op_defs Let_def)

section \<open>Resolving the adapter\<close>

text \<open>
  Claim C2. \<^verbatim>\<open>GetAdapterFromConfiguration(conf, optKey)\<close> should look the adapter type
  up under a non-empty \<^verbatim>\<open>optKey\<close> first. The code never reads \<^verbatim>\<open>optKey\<close>: with
  \<^verbatim>\<open>"my.adapter"\<close> set to the registered \<^verbatim>\<open>"nop"\<close> it returns nil on the initial
  registry, and with \<^verbatim>\<open>"tracing.adapter"\<close> set to \<^verbatim>\<open>"go"\<close> as well it returns the factory
  registered as \<^verbatim>\<open>"go"\<close>.
\<close>

theorem GetAdapterFromConfiguration_ignores_optKey:
  "GetAdapterFromConfiguration (Conf [(''my.adapter'', ''nop'')]) ''my.adapter'' init_state
     = Some (None, init_state) \<and>
   knownTraceAdapters init_state ''nop'' = Some (Some nop_Adapter) \<and>
   do { s1 \<leftarrow> RegisterTraceAdapter ''go'' (Some gologadapter_New) False init_state;
        (ad, s2) \<leftarrow> GetAdapterFromConfiguration
           (Conf [(''my.adapter'', ''nop''), (''tracing.adapter'', ''go'')]) ''my.adapter'' s1;
        Some (ad, knownTraceAdapters s2 ''nop'') }
     = Some (Some gologadapter_New, Some (Some nop_Adapter))"
  by (simp add: op_defs method_defs Let_def)

text \<open>
  Claim C3. When the adapter type is empty, unset or unregistered,
  \<^verbatim>\<open>GetAdapterFromConfiguration\<close> should return a non-nil bare-bones factory. The code
  returns \<^verbatim>\<open>knownTraceAdapters["bare"]\<close>, and nothing registers that key: on the
  initial registry and an empty configuration the result is the nil \<^verbatim>\<open>Adapter\<close>.
\<close>

theorem GetAdapterFromConfiguration_returns_nil:
  "GetAdapterFromConfiguration (Conf []) [] init_state = Some (None, init_state)"
  by (simp add: op_defs method_defs Let_def)

section \<open>The level of a new named tracer\<close>

text \<open>
  Claim C4. A named tracer for whose name no level key is set should keep the level
  its adapter gave it. In the code \<^verbatim>\<open>NewTracer\<close> calls
  \<^verbatim>\<open>SetTraceLevel(TraceLevelFromString(""))\<close>, which is \<^verbatim>\<open>LevelInfo\<close>: with the Go-log
  adapter (default \<^verbatim>\<open>LevelError\<close>) as root adapter and no level key in the
  configuration, the tracer named \<^verbatim>\<open>"x"\<close> ends at \<^verbatim>\<open>LevelInfo\<close>.
\<close>

theorem NewTracer_sets_level_Info_without_key:
  "getValue (Conf [(''tracing.adapter'', ''go'')]) [] ''x'' = [] \<and>
   GetTraceLevel (fst (call_Adapter gologadapter_New init_state))
                 (snd (call_Adapter gologadapter_New init_state)) = Some LevelError \<and>
   do { s1 \<leftarrow> RegisterTraceAdapter ''go'' (Some gologadapter_New) False init_state;
        (e, s2) \<leftarrow> ConfigureRoot (Conf [(''tracing.adapter'', ''go'')]) [] [] s1;
        ((t, p), s3) \<leftarrow> NewTracer ''x'' False s2;
        l \<leftarrow> GetTraceLevel t s3;
        Some (e, t, l) }
     = Some (None, TracerPtr 2, LevelInfo)"
  by (simp add: op_defs method_defs Let_def)

section \<open>The bare-bones tracer\<close>

text \<open>
  Claim C7. On a bare-bones tracer whose output has been set to a writer \<open>w\<close> by
  \<^verbatim>\<open>SetOutput\<close>: \<^verbatim>\<open>Errorf(msg, args...)\<close> hands \<open>w\<close> exactly the one request
  \<^verbatim>\<open>Fprintf(w, msg, args...)\<close> and nothing to any other writer; \<^verbatim>\<open>Debugf\<close> and \<^verbatim>\<open>Infof\<close>
  leave the whole state as it is; \<^verbatim>\<open>GetTraceLevel()\<close> is \<^verbatim>\<open>LevelError\<close>;
  \<^verbatim>\<open>SetTraceLevel\<close> and \<^verbatim>\<open>P\<close> change nothing, and \<^verbatim>\<open>P\<close> returns the tracer itself.
\<close>

theorem BareBones_emits_only_errors:
  assumes "heap s a = Some (BareBonesTrace out0)"
  shows "\<exists>s1 s2.
     SetOutput (BareBonesPtr a) (Some w) s = Some s1 \<and>
     Errorf (BareBonesPtr a) msg args s1 = Some s2 \<and>
     written s2 w = written s1 w @ [Fprintf msg args] \<and>
     (\<forall>w'. w' \<noteq> w \<longrightarrow> written s2 w' = written s1 w') \<and>
     Debugf (BareBonesPtr a) msg args s1 = Some s1 \<and>
     Infof (BareBonesPtr a) msg args s1 = Some s1 \<and>
     GetTraceLevel (BareBonesPtr a) s1 = Some LevelError \<and>
     SetTraceLevel (BareBonesPtr a) l s1 = Some s1 \<and>
     BareBones_P a k v s1 = Some (BareBonesPtr a, s1)"
  using assms by (simp add: method_defs fwrite_def)

text \<open>
  The scenario of the specification: the root that \<^verbatim>\<open>Root()\<close> creates on the initial
  state, redirected to a buffer; \<^verbatim>\<open>Errorf("boom")\<close> leaves the bytes \<open>boom\<close> in the
  buffer, \<^verbatim>\<open>Infof("ignored")\<close> leaves it empty.
\<close>

theorem BareBones_emits_only_errors_witness:
  "heap (snd (Root init_state)) 0 = Some (BareBonesTrace None) \<and>
   fst (Root init_state) = BareBonesPtr 0 \<and>
   (\<exists>s1 s2.
     SetOutput (BareBonesPtr 0) (Some (Buffer 0)) (snd (Root init_state)) = Some s1 \<and>
     written s1 (Buffer 0) = [] \<and>
     Errorf (BareBonesPtr 0) ''boom'' [] s1 = Some s2 \<and>
     map render (written s2 (Buffer 0)) = [Some ''boom''] \<and>
     Infof (BareBonesPtr 0) ''ignored'' [] s1 = Some s1 \<and>
     GetTraceLevel (BareBonesPtr 0) s1 = Some LevelError)"
proof -
  have h: "heap (snd (Root init_state)) 0 = Some (BareBonesTrace None)"
    by (simp add: op_defs Let_def)
  from BareBones_emits_only_errors [OF h, of "Buffer 0" "''boom''" "[]" LevelDebug "''k''" "StringValue ''v''"]
  show ?thesis
    by (simp add: op_defs method_defs Let_def)
qed

end
